theory Spec2Isabelle
  imports Main "HOL-Library.Multiset"
begin

section \<open>Python's heapq on lists\<close>

text \<open>
  The order book and the client replica keep their heaps in plain Python lists and use
  \<^verbatim>\<open>heapq.heappush\<close> and \<^verbatim>\<open>heapq.heappop\<close>. Both are modelled as CPython's
  \<^verbatim>\<open>Lib/heapq.py\<close> writes them, over a comparison \<open>lt\<close> that stands for the
  elements' \<^verbatim>\<open>__lt__\<close>:
  \<^verbatim>\<open>
  def _siftdown(heap, startpos, pos):
      newitem = heap[pos]
      while pos > startpos:
          parentpos = (pos - 1) >> 1
          parent = heap[parentpos]
          if newitem < parent:
              heap[pos] = parent
              pos = parentpos
              continue
          break
      heap[pos] = newitem
  \<close>
\<close>

function siftdown_loop :: "('a \<Rightarrow> 'a \<Rightarrow> bool) \<Rightarrow> 'a list \<Rightarrow> nat \<Rightarrow> nat \<Rightarrow> 'a \<Rightarrow> 'a list" where
  "siftdown_loop lt heap startpos pos newitem =
     (if pos > startpos then
        (let parentpos = (pos - 1) div 2;
             parent = heap ! parentpos
         in if lt newitem parent
            then siftdown_loop lt (heap[pos := parent]) startpos parentpos newitem
            else heap[pos := newitem])
      else heap[pos := newitem])"
  by pat_completeness auto
termination
  by (relation "measure (\<lambda>(lt, heap, startpos, pos, newitem). pos)") auto

definition siftdown :: "('a \<Rightarrow> 'a \<Rightarrow> bool) \<Rightarrow> 'a list \<Rightarrow> nat \<Rightarrow> nat \<Rightarrow> 'a list" where
  "siftdown lt heap startpos pos = siftdown_loop lt heap startpos pos (heap ! pos)"

text \<open>
  \<^verbatim>\<open>
  def _siftup(heap, pos):
      endpos = len(heap)
      startpos = pos
      newitem = heap[pos]
      childpos = 2*pos + 1
      while childpos < endpos:
          rightpos = childpos + 1
          if rightpos < endpos and not heap[childpos] < heap[rightpos]:
              childpos = rightpos
          heap[pos] = heap[childpos]
          pos = childpos
          childpos = 2*pos + 1
      heap[pos] = newitem
      _siftdown(heap, startpos, pos)
  \<close>
  The loop returns the list together with the position the hole has reached.
\<close>

function siftup_loop :: "('a \<Rightarrow> 'a \<Rightarrow> bool) \<Rightarrow> 'a list \<Rightarrow> nat \<Rightarrow> 'a list \<times> nat" where
  "siftup_loop lt heap pos =
     (let endpos = length heap;
          childpos = 2 * pos + 1
      in if childpos < endpos then
           (let rightpos = childpos + 1;
                childpos' = (if rightpos < endpos \<and> \<not> lt (heap ! childpos) (heap ! rightpos)
                             then rightpos else childpos)
            in siftup_loop lt (heap[pos := heap ! childpos']) childpos')
         else (heap, pos))"
  by pat_completeness auto
termination
  by (relation "measure (\<lambda>(lt, heap, pos). length heap - pos)") (auto simp: Let_def)

definition siftup :: "('a \<Rightarrow> 'a \<Rightarrow> bool) \<Rightarrow> 'a list \<Rightarrow> nat \<Rightarrow> 'a list" where
  "siftup lt heap pos =
     (let newitem = heap ! pos;
          (heap', pos') = siftup_loop lt heap pos
      in siftdown lt (heap'[pos' := newitem]) pos pos')"

text \<open>
  \<^verbatim>\<open>
  def heappush(heap, item):
      heap.append(item)
      _siftdown(heap, 0, len(heap)-1)
  \<close>
\<close>

definition heappush :: "('a \<Rightarrow> 'a \<Rightarrow> bool) \<Rightarrow> 'a list \<Rightarrow> 'a \<Rightarrow> 'a list" where
  "heappush lt heap item = siftdown lt (heap @ [item]) 0 (length heap)"

text \<open>
  \<^verbatim>\<open>
  def heappop(heap):
      lastelt = heap.pop()    # raises appropriate IndexError if heap is empty
      if heap:
          returnitem = heap[0]
          heap[0] = lastelt
          _siftup(heap, 0)
          return returnitem
      return lastelt
  \<close>
  Every caller in this program discards the returned item, so the model returns the list
  that is left. On an empty list Python raises IndexError: the result is \<open>None\<close>.
\<close>

definition heappop :: "('a \<Rightarrow> 'a \<Rightarrow> bool) \<Rightarrow> 'a list \<Rightarrow> 'a list option" where
  "heappop lt heap =
     (if heap = [] then None
      else (let lastelt = last heap;
                heap' = butlast heap
            in if heap' \<noteq> [] then Some (siftup lt (heap'[0 := lastelt]) 0)
               else Some heap'))"

declare siftdown_loop.simps [simp del] siftup_loop.simps [simp del]

text \<open>The sifting loops keep the length of the list; the matching loops below terminate by it.\<close>

lemma length_siftdown_loop [simp]:
  "length (siftdown_loop lt heap startpos pos newitem) = length heap"
proof (induction lt heap startpos pos newitem rule: siftdown_loop.induct)
  case (1 lt heap startpos pos newitem)
  show ?case
    by (subst siftdown_loop.simps) (simp add: Let_def 1)
qed

lemma length_siftup_loop [simp]: "length (fst (siftup_loop lt heap pos)) = length heap"
proof (induction lt heap pos rule: siftup_loop.induct)
  case (1 lt heap pos)
  show ?case
    by (subst siftup_loop.simps) (simp add: Let_def 1)
qed

lemma length_siftup [simp]: "length (siftup lt heap pos) = length heap"
  using length_siftup_loop [of lt heap pos]
  by (simp add: siftup_def siftdown_def split_beta Let_def del: length_siftup_loop)

lemma length_heappush [simp]: "length (heappush lt heap item) = Suc (length heap)"
  by (simp add: heappush_def siftdown_def)

lemma length_heappop: "heappop lt heap = Some heap' \<Longrightarrow> Suc (length heap') = length heap"
  by (cases heap rule: rev_cases) (auto simp: heappop_def Let_def split: if_splits)

lemma heappop_Some: "heap \<noteq> [] \<Longrightarrow> \<exists>heap'. heappop lt heap = Some heap'"
  by (simp add: heappop_def Let_def)

section \<open>The order book (backend/order\_book.py)\<close>

text \<open>
  \<^verbatim>\<open>
  @dataclass
  class Order:
      order_id: int
      price: float
      quantity: int
      side: bool      # True for buy, False for sell
      order_type: str # "limit" or "market"
      timestamp: float = field(default_factory=time.time)
  \<close>
  Prices and timestamps are Python floats. The model takes them as integers (a price in
  hundredths, a timestamp in clock ticks): the code only compares them and copies them, and
  on floats other than NaN these comparisons are a linear order as on the integers.
  Quantities are Python's unbounded integers. An \<open>order\<close> is a value: every call of
  \<open>add_order\<close> in this repository passes an Order object it has just constructed, so the
  object mutated by the matching loop is shared with nothing but the heap entry.
\<close>

record order =
  order_id :: int
  price :: int
  quantity :: int
  side :: bool
  order_type :: string
  timestamp :: int

text \<open>
  \<^verbatim>\<open>
  def __lt__(self, other):
      if self.side:
          if self.price != other.price:
              return self.price > other.price
          return self.timestamp < other.timestamp
      else:
          if self.price != other.price:
              return self.price < other.price
          return self.timestamp < other.timestamp
  \<close>
\<close>

definition Order_lt :: "order \<Rightarrow> order \<Rightarrow> bool" where
  "Order_lt self other =
     (if side self then
        (if price self \<noteq> price other then price self > price other
         else timestamp self < timestamp other)
      else
        (if price self \<noteq> price other then price self < price other
         else timestamp self < timestamp other))"

text \<open>
  A Trade's \<^verbatim>\<open>timestamp\<close> field and the last argument of the update callback are
  \<^verbatim>\<open>time.time()\<close> readings of the wall clock; they are left out of the records.
\<close>

record trade =
  buy_order_id :: int
  sell_order_id :: int
  trade_price :: int
  trade_quantity :: int

text \<open>One call of the \<^verbatim>\<open>on_market_update\<close> callback: instrument, price, quantity, side.\<close>

record level_update =
  lu_instrument :: string
  lu_price :: int
  lu_quantity :: int
  lu_side :: bool

text \<open>
  The state of an \<^verbatim>\<open>OrderBook\<close> object. \<open>on_market_update\<close> tells whether a callback is
  installed (the attribute is not None); \<open>market_updates\<close> is the sequence of calls made
  to it so far, the effect of \<^verbatim>\<open>_notify_update\<close>.
\<close>

record OrderBook =
  instrument_id :: string
  buy_heap :: "order list"
  sell_heap :: "order list"
  trade_log :: "trade list"
  on_market_update :: bool
  market_updates :: "level_update list"

definition OrderBook_init :: "string \<Rightarrow> bool \<Rightarrow> OrderBook" where
  "OrderBook_init iid cb =
     \<lparr>instrument_id = iid, buy_heap = [], sell_heap = [], trade_log = [],
      on_market_update = cb, market_updates = []\<rparr>"

definition notify_update :: "OrderBook \<Rightarrow> int \<Rightarrow> int \<Rightarrow> bool \<Rightarrow> OrderBook" where
  "notify_update b p q s =
     (if on_market_update b
      then b\<lparr>market_updates := market_updates b @
              [\<lparr>lu_instrument = instrument_id b, lu_price = p, lu_quantity = q, lu_side = s\<rparr>]\<rparr>
      else b)"

text \<open>
  One pass through the body of the loop of \<^verbatim>\<open>_match_buy\<close>, after the price check, with
  \<open>best_sell = self.sell_heap[0]\<close>. The two \<^verbatim>\<open>-=\<close> mutate the incoming order and the
  object at the root of the heap in place. \<open>None\<close> is an IndexError out of heappop.
\<close>

definition match_buy_body :: "OrderBook \<Rightarrow> order \<Rightarrow> order \<Rightarrow> (OrderBook \<times> order) option" where
  "match_buy_body b buy_order best_sell =
     (let trade_qty = min (quantity buy_order) (quantity best_sell);
          tr = \<lparr>buy_order_id = order_id buy_order, sell_order_id = order_id best_sell,
                trade_price = price best_sell, trade_quantity = trade_qty\<rparr>;
          b1 = b\<lparr>trade_log := trade_log b @ [tr]\<rparr>;
          buy_order' = buy_order\<lparr>quantity := quantity buy_order - trade_qty\<rparr>;
          best_sell' = best_sell\<lparr>quantity := quantity best_sell - trade_qty\<rparr>;
          b2 = b1\<lparr>sell_heap := (sell_heap b1)[0 := best_sell']\<rparr>
      in if quantity best_sell' = 0 then
           (case heappop Order_lt (sell_heap b2) of
              None \<Rightarrow> None
            | Some h \<Rightarrow>
                Some (notify_update (b2\<lparr>sell_heap := h\<rparr>) (price best_sell') 0 False, buy_order'))
         else
           Some (notify_update b2 (price best_sell') (quantity best_sell') False, buy_order'))"

definition match_sell_body :: "OrderBook \<Rightarrow> order \<Rightarrow> order \<Rightarrow> (OrderBook \<times> order) option" where
  "match_sell_body b sell_order best_buy =
     (let trade_qty = min (quantity sell_order) (quantity best_buy);
          tr = \<lparr>buy_order_id = order_id best_buy, sell_order_id = order_id sell_order,
                trade_price = price best_buy, trade_quantity = trade_qty\<rparr>;
          b1 = b\<lparr>trade_log := trade_log b @ [tr]\<rparr>;
          sell_order' = sell_order\<lparr>quantity := quantity sell_order - trade_qty\<rparr>;
          best_buy' = best_buy\<lparr>quantity := quantity best_buy - trade_qty\<rparr>;
          b2 = b1\<lparr>buy_heap := (buy_heap b1)[0 := best_buy']\<rparr>
      in if quantity best_buy' = 0 then
           (case heappop Order_lt (buy_heap b2) of
              None \<Rightarrow> None
            | Some h \<Rightarrow>
                Some (notify_update (b2\<lparr>buy_heap := h\<rparr>) (price best_buy') 0 True, sell_order'))
         else
           Some (notify_update b2 (price best_buy') (quantity best_buy') True, sell_order'))"

lemma match_buy_body_measure:
  assumes "match_buy_body b buy_order best_sell = Some (b', o')" and "sell_heap b \<noteq> []"
    and "quantity buy_order > 0"
  shows "2 * length (sell_heap b') + (if quantity o' > 0 then 1 else 0)
         < 2 * length (sell_heap b) + (if quantity buy_order > 0 then 1 else (0::nat))"
  using assms
  by (auto simp: match_buy_body_def Let_def notify_update_def min_def
           split: if_splits option.splits dest!: length_heappop)

lemma match_sell_body_measure:
  assumes "match_sell_body b sell_order best_buy = Some (b', o')" and "buy_heap b \<noteq> []"
    and "quantity sell_order > 0"
  shows "2 * length (buy_heap b') + (if quantity o' > 0 then 1 else 0)
         < 2 * length (buy_heap b) + (if quantity sell_order > 0 then 1 else (0::nat))"
  using assms
  by (auto simp: match_sell_body_def Let_def notify_update_def min_def
           split: if_splits option.splits dest!: length_heappop)

text \<open>
  \<^verbatim>\<open>
  def _match_buy(self, buy_order: Order):
      while buy_order.quantity > 0 and self.sell_heap:
          best_sell = self.sell_heap[0]
          if buy_order.order_type == "limit" and best_sell.price > buy_order.price:
              break
          ...
  \<close>
  The function returns the book and the incoming order as the loop leaves them.
\<close>

function match_buy :: "OrderBook \<Rightarrow> order \<Rightarrow> (OrderBook \<times> order) option" where
  "match_buy b buy_order =
     (if quantity buy_order > 0 \<and> sell_heap b \<noteq> [] then
        (let best_sell = sell_heap b ! 0
         in if order_type buy_order = ''limit'' \<and> price best_sell > price buy_order
            then Some (b, buy_order)
            else (case match_buy_body b buy_order best_sell of
                    None \<Rightarrow> None
                  | Some (b', buy_order') \<Rightarrow> match_buy b' buy_order'))
      else Some (b, buy_order))"
  by pat_completeness auto
termination
  by (relation "measure (\<lambda>(b, o'). 2 * length (sell_heap b) + (if quantity o' > 0 then 1 else 0))")
     (auto dest: match_buy_body_measure)

function match_sell :: "OrderBook \<Rightarrow> order \<Rightarrow> (OrderBook \<times> order) option" where
  "match_sell b sell_order =
     (if quantity sell_order > 0 \<and> buy_heap b \<noteq> [] then
        (let best_buy = buy_heap b ! 0
         in if order_type sell_order = ''limit'' \<and> price best_buy < price sell_order
            then Some (b, sell_order)
            else (case match_sell_body b sell_order best_buy of
                    None \<Rightarrow> None
                  | Some (b', sell_order') \<Rightarrow> match_sell b' sell_order'))
      else Some (b, sell_order))"
  by pat_completeness auto
termination
  by (relation "measure (\<lambda>(b, o'). 2 * length (buy_heap b) + (if quantity o' > 0 then 1 else 0))")
     (auto dest: match_sell_body_measure)

text \<open>
  \<^verbatim>\<open>
  def add_order(self, order: Order):
      if order.side:  # Buy order
          self._match_buy(order)
          if order.quantity > 0 and order.order_type == "limit":
              heapq.heappush(self.buy_heap, order)
      else:  # Sell order
          self._match_sell(order)
          if order.quantity > 0 and order.order_type == "limit":
              heapq.heappush(self.sell_heap, order)
  \<close>
  (the debug prints are left out). \<open>None\<close> is an exception escaping the call.
\<close>

definition add_order :: "OrderBook \<Rightarrow> order \<Rightarrow> OrderBook option" where
  "add_order b ord =
     (if side ord then
        (case match_buy b ord of
           None \<Rightarrow> None
         | Some (b', ord') \<Rightarrow>
             if quantity ord' > 0 \<and> order_type ord' = ''limit''
             then Some (b'\<lparr>buy_heap := heappush Order_lt (buy_heap b') ord'\<rparr>)
             else Some b')
      else
        (case match_sell b ord of
           None \<Rightarrow> None
         | Some (b', ord') \<Rightarrow>
             if quantity ord' > 0 \<and> order_type ord' = ''limit''
             then Some (b'\<lparr>sell_heap := heappush Order_lt (sell_heap b') ord'\<rparr>)
             else Some b'))"

declare match_buy.simps [simp del] match_sell.simps [simp del]



text \<open>
  \<^verbatim>\<open>dump_book\<close> aggregates the resting orders into a dict from price to quantity,
  in the order of the heap list, and returns the items sorted by price, the bids in
  descending order. A dict is an association list with one entry per key, kept in
  insertion order; \<open>add_level\<close> is
  \<^verbatim>\<open>
  if order.price in buy_levels:
      buy_levels[order.price] += order.quantity
  else:
      buy_levels[order.price] = order.quantity
  \<close>
  The keys of a dict are distinct, so sorting the (price, quantity) items is sorting by price.
\<close>

definition add_level :: "(int \<times> int) list \<Rightarrow> order \<Rightarrow> (int \<times> int) list" where
  "add_level levels ord =
     (if price ord \<in> fst ` set levels
      then map (\<lambda>(p, q). if p = price ord then (p, q + quantity ord) else (p, q)) levels
      else levels @ [(price ord, quantity ord)])"

record book_dump =
  bids :: "(int \<times> int) list"
  asks :: "(int \<times> int) list"

definition dump_book :: "OrderBook \<Rightarrow> book_dump" where
  "dump_book b =
     (let buy_levels = foldl add_level [] (buy_heap b);
          sell_levels = foldl add_level [] (sell_heap b)
      in \<lparr>bids = rev (sort_key fst buy_levels), asks = sort_key fst sell_levels\<rparr>)"

section \<open>The client's replica (backend/market\_data\_model.py)\<close>

text \<open>
  The heaps of \<^verbatim>\<open>ClientOrderBook\<close> hold tuples \<^verbatim>\<open>(-price, price)\<close> and
  \<^verbatim>\<open>(price, price)\<close>; \<open>tuple_lt\<close> is Python's comparison of two such tuples. The dicts
  \<^verbatim>\<open>bids\<close> and \<^verbatim>\<open>asks\<close> are maps from price to quantity. A snapshot message carries its
  levels as (price, quantity) pairs and a timestamp, an update message a price, a quantity,
  a side and a timestamp.
\<close>

definition tuple_lt :: "int \<times> int \<Rightarrow> int \<times> int \<Rightarrow> bool" where
  "tuple_lt a b = (fst a < fst b \<or> fst a = fst b \<and> snd a < snd b)"

record OrderBookSnapshot =
  snapshot_bids :: "(int \<times> int) list"
  snapshot_asks :: "(int \<times> int) list"
  snapshot_timestamp :: int

record OrderBookUpdate =
  update_price :: int
  update_quantity :: int
  update_side :: bool
  update_timestamp :: int

record ClientOrderBook =
  client_bids :: "int \<rightharpoonup> int"
  bid_heap :: "(int \<times> int) list"
  client_asks :: "int \<rightharpoonup> int"
  ask_heap :: "(int \<times> int) list"
  last_update_timestamp :: int

definition ClientOrderBook_init :: ClientOrderBook where
  "ClientOrderBook_init =
     \<lparr>client_bids = Map.empty, bid_heap = [], client_asks = Map.empty, ask_heap = [],
      last_update_timestamp = 0\<rparr>"

text \<open>
  \<^verbatim>\<open>
  def apply_snapshot(self, snapshot):
      self.bids.clear()
      self.asks.clear()
      self._bid_heap = []
      self._ask_heap = []
      for level in snapshot.bids:
          self.bids[level.price] = level.quantity
          heapq.heappush(self._bid_heap, (-level.price, level.price))
      for level in snapshot.asks:
          self.asks[level.price] = level.quantity
          heapq.heappush(self._ask_heap, (level.price, level.price))
      self.last_update_timestamp = snapshot.timestamp
  \<close>
\<close>

definition snapshot_bid :: "ClientOrderBook \<Rightarrow> int \<times> int \<Rightarrow> ClientOrderBook" where
  "snapshot_bid c level =
     c\<lparr>client_bids := (client_bids c)(fst level \<mapsto> snd level),
       bid_heap := heappush tuple_lt (bid_heap c) (- fst level, fst level)\<rparr>"

definition snapshot_ask :: "ClientOrderBook \<Rightarrow> int \<times> int \<Rightarrow> ClientOrderBook" where
  "snapshot_ask c level =
     c\<lparr>client_asks := (client_asks c)(fst level \<mapsto> snd level),
       ask_heap := heappush tuple_lt (ask_heap c) (fst level, fst level)\<rparr>"

definition apply_snapshot :: "ClientOrderBook \<Rightarrow> OrderBookSnapshot \<Rightarrow> ClientOrderBook" where
  "apply_snapshot c snapshot =
     (let c0 = c\<lparr>client_bids := Map.empty, client_asks := Map.empty, bid_heap := [], ask_heap := []\<rparr>;
          c1 = foldl snapshot_bid c0 (snapshot_bids snapshot);
          c2 = foldl snapshot_ask c1 (snapshot_asks snapshot)
      in c2\<lparr>last_update_timestamp := snapshot_timestamp snapshot\<rparr>)"

text \<open>
  \<^verbatim>\<open>
  def apply_update(self, update):
      target_dict = self.bids if update.side else self.asks
      target_heap = self._bid_heap if update.side else self._ask_heap
      if update.quantity > 0:
          if update.price not in target_dict:
              heapq.heappush(target_heap, (-update.price, update.price) if update.side
                                          else (update.price, update.price))
          target_dict[update.price] = update.quantity
      else:
          if update.price in target_dict:
              del target_dict[update.price]
      self.last_update_timestamp = update.timestamp
  \<close>
\<close>

definition apply_update :: "ClientOrderBook \<Rightarrow> OrderBookUpdate \<Rightarrow> ClientOrderBook" where
  "apply_update c update =
     (let c' =
        (if update_side update then
           (if update_quantity update > 0 then
              c\<lparr>bid_heap := (if client_bids c (update_price update) = None
                               then heappush tuple_lt (bid_heap c)
                                      (- update_price update, update_price update)
                               else bid_heap c),
                client_bids := (client_bids c)(update_price update \<mapsto> update_quantity update)\<rparr>
            else
              (if client_bids c (update_price update) \<noteq> None
               then c\<lparr>client_bids := (client_bids c)(update_price update := None)\<rparr>
               else c))
         else
           (if update_quantity update > 0 then
              c\<lparr>ask_heap := (if client_asks c (update_price update) = None
                               then heappush tuple_lt (ask_heap c)
                                      (update_price update, update_price update)
                               else ask_heap c),
                client_asks := (client_asks c)(update_price update \<mapsto> update_quantity update)\<rparr>
            else
              (if client_asks c (update_price update) \<noteq> None
               then c\<lparr>client_asks := (client_asks c)(update_price update := None)\<rparr>
               else c)))
      in c'\<lparr>last_update_timestamp := update_timestamp update\<rparr>)"

section \<open>Notions the properties are stated with\<close>





text \<open>
  \<open>match_buy_continues\<close> is the condition under which \<^verbatim>\<open>_match_buy\<close> runs its body once
  more: the \<^verbatim>\<open>while\<close> condition holds and the \<^verbatim>\<open>break\<close> is not taken.
  \<open>match_sell_continues\<close> is the same for \<^verbatim>\<open>_match_sell\<close>.
\<close>

definition match_buy_continues :: "OrderBook \<Rightarrow> order \<Rightarrow> bool" where
  "match_buy_continues b buy_order =
     (quantity buy_order > 0 \<and> sell_heap b \<noteq> [] \<and>
      \<not> (order_type buy_order = ''limit'' \<and> price (sell_heap b ! 0) > price buy_order))"

definition match_sell_continues :: "OrderBook \<Rightarrow> order \<Rightarrow> bool" where
  "match_sell_continues b sell_order =
     (quantity sell_order > 0 \<and> buy_heap b \<noteq> [] \<and>
      \<not> (order_type sell_order = ''limit'' \<and> price (buy_heap b ! 0) < price sell_order))"



text \<open>
  \<open>new_trades b b'\<close> are the trades a call taking the book from \<open>b\<close> to \<open>b'\<close> has
  appended to \<^verbatim>\<open>trade_log\<close>, \<open>new_updates b b'\<close> the callback calls it has made.
\<close>

definition new_trades :: "OrderBook \<Rightarrow> OrderBook \<Rightarrow> trade list" where
  "new_trades b b' = drop (length (trade_log b)) (trade_log b')"




text \<open>
  The dataclass constructor \<^verbatim>\<open>Order(order_id, price, quantity, side, order_type, timestamp)\<close>
  and \<open>submit_all\<close>, which submits a list of orders one after the other.
\<close>

definition Order :: "int \<Rightarrow> int \<Rightarrow> int \<Rightarrow> bool \<Rightarrow> string \<Rightarrow> int \<Rightarrow> order" where
  "Order i p q s t ts =
     \<lparr>order_id = i, price = p, quantity = q, side = s, order_type = t, timestamp = ts\<rparr>"

fun submit_all :: "OrderBook \<Rightarrow> order list \<Rightarrow> OrderBook option" where
  "submit_all b [] = Some b"
| "submit_all b (ord # ords) =
     (case add_order b ord of None \<Rightarrow> None | Some b' \<Rightarrow> submit_all b' ords)"

text \<open>
  Books and a snapshot used as concrete inputs, each written out as the state a fresh
  \<^verbatim>\<open>OrderBook("BTC_USD", callback)\<close> has after the \<open>add_order\<close> calls that rest its orders
  (prices in hundredths: 10100 is 101.00).
\<close>

definition book_one_ask :: OrderBook where
  "book_one_ask =
     \<lparr>instrument_id = ''BTC_USD'', buy_heap = [],
      sell_heap = [Order 1 10100 3 False ''limit'' 1], trade_log = [],
      on_market_update = True, market_updates = []\<rparr>"

definition book_one_bid :: OrderBook where
  "book_one_bid =
     \<lparr>instrument_id = ''BTC_USD'', buy_heap = [Order 1 10000 10 True ''limit'' 1],
      sell_heap = [], trade_log = [], on_market_update = True, market_updates = []\<rparr>"

definition book_two_asks :: OrderBook where
  "book_two_asks =
     \<lparr>instrument_id = ''BTC_USD'', buy_heap = [],
      sell_heap = [Order 1 10000 3 False ''limit'' 1, Order 2 10000 4 False ''limit'' 2],
      trade_log = [], on_market_update = True, market_updates = []\<rparr>"



definition snapshot_one_bid :: OrderBookSnapshot where
  "snapshot_one_bid =
     \<lparr>snapshot_bids = [(10000, 6)], snapshot_asks = [], snapshot_timestamp = 10\<rparr>"

section \<open>heapq keeps the heap invariant and the elements\<close>














lemma mset_siftdown_loop:
  "pos < length h \<Longrightarrow> mset (siftdown_loop lt h s pos x) = mset (h[pos := x])"
proof (induction lt h s pos x rule: siftdown_loop.induct)
  case (1 lt heap startpos pos newitem)
  let ?p = "(pos - 1) div 2"
  show ?case
  proof (cases "startpos < pos \<and> lt newitem (heap ! ?p)")
    case True
    then have p: "?p < pos" by auto
    have "mset (siftdown_loop lt (heap[pos := heap ! ?p]) startpos ?p newitem)
          = mset (heap[pos := heap ! ?p, ?p := newitem])"
      using "1.IH"[OF _ refl refl] True "1.prems" p by simp
    also have "\<dots> = mset (heap[pos := newitem])"
      using p "1.prems" by (simp add: mset_update nth_list_update)
    finally show ?thesis using True by (subst siftdown_loop.simps) (simp add: Let_def)
  next
    case False
    then show ?thesis by (subst siftdown_loop.simps) (auto simp: Let_def)
  qed
qed

lemma mset_siftup_loop:
  "pos < length h \<Longrightarrow>
   mset ((fst (siftup_loop lt h pos))[snd (siftup_loop lt h pos) := x]) = mset (h[pos := x]) \<and>
   snd (siftup_loop lt h pos) < length h"
proof (induction lt h pos rule: siftup_loop.induct)
  case (1 lt heap pos)
  show ?case
  proof (cases "2 * pos + 1 < length heap")
    case False
    then have "siftup_loop lt heap pos = (heap, pos)"
      by (subst siftup_loop.simps) (simp add: Let_def)
    then show ?thesis using "1.prems" by simp
  next
    case True
    define c where "c = (if 2 * pos + 2 < length heap \<and> \<not> lt (heap ! (2 * pos + 1)) (heap ! (2 * pos + 2))
                 then 2 * pos + 2 else 2 * pos + 1)"
    have cl: "c < length heap" "pos < c" using True by (auto simp: c_def)
    have eq: "siftup_loop lt heap pos = siftup_loop lt (heap[pos := heap ! c]) c"
      using True by (subst siftup_loop.simps) (simp add: Let_def c_def)
    have ceq: "(if 2 * pos + 1 + 1 < length heap \<and> \<not> lt (heap ! (2 * pos + 1)) (heap ! (2 * pos + 1 + 1))
                 then 2 * pos + 1 + 1 else 2 * pos + 1) = c" by (simp add: c_def)
    note IH0 = "1.IH"[OF refl refl True refl refl, unfolded ceq]
    have "c < length (heap[pos := heap ! c])" using cl by simp
    from IH0[OF this]
    have IH: "mset ((fst (siftup_loop lt heap pos))[snd (siftup_loop lt heap pos) := x])
              = mset (heap[pos := heap ! c, c := x])"
      "snd (siftup_loop lt heap pos) < length heap"
      unfolding eq by simp_all
    have "mset (heap[pos := heap ! c, c := x]) = mset (heap[pos := x])"
      using cl "1.prems" by (simp add: mset_update nth_list_update)
    with IH show ?thesis by simp
  qed
qed


lemma mset_siftup: "0 < length h \<Longrightarrow> mset (siftup lt h 0) = mset h"
proof -
  assume a: "0 < length h"
  obtain h' pos' where r: "siftup_loop lt h 0 = (h', pos')" by (cases "siftup_loop lt h 0")
  from mset_siftup_loop[OF a, of lt "h ! 0"] r length_siftup_loop[of lt h 0]
  have b: "mset (h'[pos' := h ! 0]) = mset h" "pos' < length h'" by auto
  then show ?thesis using r
    by (simp add: siftup_def siftdown_def mset_siftdown_loop Let_def)
qed

lemma mset_heappop:
  assumes "heappop lt h = Some h'"
  shows "mset h = add_mset (h ! 0) (mset h')"
proof -
  from assms obtain xs l where h: "h = xs @ [l]"
    by (cases h rule: rev_cases) (auto simp: heappop_def)
  show ?thesis
  proof (cases xs)
    case Nil
    then show ?thesis using assms h by (simp add: heappop_def)
  next
    case (Cons a as)
    then have "h' = siftup lt ((a # as)[0 := l]) 0" using assms h by (simp add: heappop_def)
    then have "mset h' = mset (l # as)" by (simp add: mset_siftup)
    then show ?thesis using h Cons by simp
  qed
qed

section \<open>The matching loops\<close>

subsection \<open>\<^verbatim>\<open>_match_buy\<close>\<close>

lemma match_buy_unfold:
  "match_buy b buy_order =
     (if match_buy_continues b buy_order
      then (case match_buy_body b buy_order (sell_heap b ! 0) of
              None \<Rightarrow> None
            | Some (b', buy_order') \<Rightarrow> match_buy b' buy_order')
      else Some (b, buy_order))"
  by (subst match_buy.simps) (auto simp: match_buy_continues_def Let_def)

lemma match_buy_body_Some:
  "sell_heap b \<noteq> [] \<Longrightarrow> \<exists>b' o'. match_buy_body b buy_order best_sell = Some (b', o')"
  using heappop_Some[of "(sell_heap b)[0 := best_sell\<lparr>quantity := 0\<rparr>]" Order_lt]
  by (auto simp: match_buy_body_def Let_def split: option.splits)

lemma match_buy_rule:
  assumes "P b buy_order"
    and "\<And>b o' b' o''. P b o' \<Longrightarrow> match_buy_continues b o' \<Longrightarrow>
           match_buy_body b o' (sell_heap b ! 0) = Some (b', o'') \<Longrightarrow> P b' o''"
  shows "\<exists>b' o'. match_buy b buy_order = Some (b', o') \<and> P b' o' \<and> \<not> match_buy_continues b' o'"
  using assms(1)
proof (induction b buy_order rule: match_buy.induct)
  case (1 b buy_order)
  show ?case
  proof (cases "match_buy_continues b buy_order")
    case False
    then show ?thesis using "1.prems" by (subst match_buy_unfold) auto
  next
    case True
    then have ne: "sell_heap b \<noteq> []" by (simp add: match_buy_continues_def)
    from match_buy_body_Some[OF ne] obtain b' o' where
      body: "match_buy_body b buy_order (sell_heap b ! 0) = Some (b', o')" by blast
    have P': "P b' o'" using assms(2)[OF "1.prems" True body] .
    have "\<exists>b'' o''. match_buy b' o' = Some (b'', o'') \<and> P b'' o'' \<and> \<not> match_buy_continues b'' o''"
      using "1.IH"[OF _ refl _ body refl P'] True
      by (auto simp: match_buy_continues_def)
    then show ?thesis using True body by (subst match_buy_unfold) simp
  qed
qed

text \<open>What one pass of the loop body does, spelled out on a heap \<open>r # rest\<close>.\<close>

lemma match_buy_body_cases:
  assumes "match_buy_body b o' r = Some (b', o'')" and "sell_heap b = r # rest"
  shows "o'' = o'\<lparr>quantity := quantity o' - min (quantity o') (quantity r)\<rparr> \<and>
         trade_log b' = trade_log b @
           [\<lparr>buy_order_id = order_id o', sell_order_id = order_id r,
             trade_price = price r, trade_quantity = min (quantity o') (quantity r)\<rparr>] \<and>
         buy_heap b' = buy_heap b \<and> instrument_id b' = instrument_id b \<and>
         on_market_update b' = on_market_update b \<and>
         market_updates b' = market_updates b @
           (if on_market_update b
            then [\<lparr>lu_instrument = instrument_id b, lu_price = price r,
                   lu_quantity = quantity r - min (quantity o') (quantity r), lu_side = False\<rparr>]
            else []) \<and>
         (if quantity r - min (quantity o') (quantity r) = 0
          then heappop Order_lt (r\<lparr>quantity := 0\<rparr> # rest) = Some (sell_heap b')
          else sell_heap b' = r\<lparr>quantity := quantity r - min (quantity o') (quantity r)\<rparr> # rest)"
  using assms
  by (auto simp: match_buy_body_def Let_def notify_update_def split: if_splits option.splits)



lemma Order_lt_quantity [simp]:
  "Order_lt (a\<lparr>quantity := q\<rparr>) c = Order_lt a c"
  "Order_lt a (c\<lparr>quantity := q\<rparr>) = Order_lt a c"
  by (simp_all add: Order_lt_def)


lemma heappop_Cons_mset: "heappop lt (x # xs) = Some h' \<Longrightarrow> mset h' = mset xs"
  using mset_heappop[of lt "x # xs" h'] by simp

lemma match_buy_body_heap:
  assumes "match_buy_body b o' r = Some (b', o'')" and "sell_heap b = r # rest"
  shows "(quantity r \<le> quantity o' \<and> mset (sell_heap b') = mset rest \<and>
            heappop Order_lt (r\<lparr>quantity := 0\<rparr> # rest) = Some (sell_heap b')) \<or>
         (quantity o' < quantity r \<and>
            sell_heap b' = r\<lparr>quantity := quantity r - quantity o'\<rparr> # rest)"
proof (cases "quantity r \<le> quantity o'")
  case True
  then have "heappop Order_lt (r\<lparr>quantity := 0\<rparr> # rest) = Some (sell_heap b')"
    using match_buy_body_cases[OF assms] by (simp add: min_def split: if_splits)
  then show ?thesis using True heappop_Cons_mset[of Order_lt "r\<lparr>quantity := 0\<rparr>" rest "sell_heap b'"]
    by simp
next
  case False
  then show ?thesis using match_buy_body_cases[OF assms] by (simp add: min_def)
qed

lemma match_buy_body_image:
  assumes "match_buy_body b o' r = Some (b', o'')" and "sell_heap b = r # rest"
    and "\<And>x q. f (x\<lparr>quantity := q\<rparr>) = f x"
  shows "f ` set (sell_heap b') \<subseteq> f ` set (sell_heap b)"
  using match_buy_body_heap[OF assms(1,2)] assms(2,3)
  by (auto dest: mset_eq_setD)



lemma match_buy_body_order:
  assumes "match_buy_body b o' r = Some (b', o'')"
  shows "side o'' = side o' \<and> price o'' = price o' \<and> order_type o'' = order_type o' \<and>
         order_id o'' = order_id o' \<and> timestamp o'' = timestamp o'"
  using assms
  by (auto simp: match_buy_body_def Let_def split: if_splits option.splits)




lemma match_buy_maker:
  "\<exists>b' o'. match_buy b buy_order = Some (b', o') \<and> order_type o' = order_type buy_order \<and>
     (\<exists>ts. trade_log b' = trade_log b @ ts \<and>
        (\<forall>t\<in>set ts. \<exists>r\<in>set (sell_heap b). trade_price t = price r \<and>
            sell_order_id t = order_id r \<and> buy_order_id t = order_id buy_order))"
proof -
  let ?key = "\<lambda>r. (order_id r, price r)"
  let ?P = "\<lambda>b1 o1. order_id o1 = order_id buy_order \<and> order_type o1 = order_type buy_order \<and>
     ?key ` set (sell_heap b1) \<subseteq> ?key ` set (sell_heap b) \<and>
     (\<exists>ts. trade_log b1 = trade_log b @ ts \<and>
        (\<forall>t\<in>set ts. \<exists>r\<in>set (sell_heap b). trade_price t = price r \<and>
            sell_order_id t = order_id r \<and> buy_order_id t = order_id buy_order))"
  have "\<exists>b' o'. match_buy b buy_order = Some (b', o') \<and> ?P b' o' \<and> \<not> match_buy_continues b' o'"
  proof (rule match_buy_rule[where P = ?P])
    show "?P b buy_order" by simp
  next
    fix b1 o1 b2 o2
    assume P: "?P b1 o1" and c: "match_buy_continues b1 o1"
      and body: "match_buy_body b1 o1 (sell_heap b1 ! 0) = Some (b2, o2)"
    have ne: "sell_heap b1 \<noteq> []" using c by (simp add: match_buy_continues_def)
    then obtain r rest where h: "sell_heap b1 = r # rest" by (cases "sell_heap b1") auto
    then have body': "match_buy_body b1 o1 r = Some (b2, o2)" using body by simp
    from P obtain ts where ts: "trade_log b1 = trade_log b @ ts"
      "\<forall>t\<in>set ts. \<exists>r\<in>set (sell_heap b). trade_price t = price r \<and>
            sell_order_id t = order_id r \<and> buy_order_id t = order_id buy_order" by blast
    let ?t = "\<lparr>buy_order_id = order_id o1, sell_order_id = order_id r,
             trade_price = price r, trade_quantity = min (quantity o1) (quantity r)\<rparr>"
    have tl: "trade_log b2 = trade_log b @ (ts @ [?t])"
      using match_buy_body_cases[OF body' h] ts(1) by simp
    have "?key r \<in> ?key ` set (sell_heap b)" using P h by auto
    then obtain r0 where r0: "r0 \<in> set (sell_heap b)" "order_id r0 = order_id r" "price r0 = price r"
      by auto
    have new: "\<forall>t\<in>set (ts @ [?t]). \<exists>r\<in>set (sell_heap b). trade_price t = price r \<and>
            sell_order_id t = order_id r \<and> buy_order_id t = order_id buy_order"
    proof -
      have "\<exists>x\<in>set (sell_heap b). price r = price x \<and> order_id r = order_id x"
        using r0 by (intro bexI[of _ r0]) simp_all
      moreover have "order_id o1 = order_id buy_order" using P by simp
      ultimately show ?thesis using ts(2) by simp
    qed
    have sub: "?key ` set (sell_heap b2) \<subseteq> ?key ` set (sell_heap b1)"
      by (rule match_buy_body_image[OF body' h]) simp
    have sub': "?key ` set (sell_heap b2) \<subseteq> ?key ` set (sell_heap b)"
      using sub P by (meson subset_trans)
    have o2: "order_id o2 = order_id buy_order" "order_type o2 = order_type buy_order"
      using match_buy_body_order[OF body] P by simp_all
    show "?P b2 o2"
      using o2 sub' tl new by blast
  qed
  then show ?thesis by blast
qed




subsection \<open>\<^verbatim>\<open>_match_sell\<close>\<close>

lemma match_sell_unfold:
  "match_sell b sell_order =
     (if match_sell_continues b sell_order
      then (case match_sell_body b sell_order (buy_heap b ! 0) of
              None \<Rightarrow> None
            | Some (b', sell_order') \<Rightarrow> match_sell b' sell_order')
      else Some (b, sell_order))"
  by (subst match_sell.simps) (auto simp: match_sell_continues_def Let_def)

lemma match_sell_body_Some:
  "buy_heap b \<noteq> [] \<Longrightarrow> \<exists>b' o'. match_sell_body b sell_order best_buy = Some (b', o')"
  using heappop_Some[of "(buy_heap b)[0 := best_buy\<lparr>quantity := 0\<rparr>]" Order_lt]
  by (auto simp: match_sell_body_def Let_def split: option.splits)

lemma match_sell_rule:
  assumes "P b sell_order"
    and "\<And>b o' b' o''. P b o' \<Longrightarrow> match_sell_continues b o' \<Longrightarrow>
           match_sell_body b o' (buy_heap b ! 0) = Some (b', o'') \<Longrightarrow> P b' o''"
  shows "\<exists>b' o'. match_sell b sell_order = Some (b', o') \<and> P b' o' \<and> \<not> match_sell_continues b' o'"
  using assms(1)
proof (induction b sell_order rule: match_sell.induct)
  case (1 b sell_order)
  show ?case
  proof (cases "match_sell_continues b sell_order")
    case False
    then show ?thesis using "1.prems" by (subst match_sell_unfold) auto
  next
    case True
    then have ne: "buy_heap b \<noteq> []" by (simp add: match_sell_continues_def)
    from match_sell_body_Some[OF ne] obtain b' o' where
      body: "match_sell_body b sell_order (buy_heap b ! 0) = Some (b', o')" by blast
    have P': "P b' o'" using assms(2)[OF "1.prems" True body] .
    have "\<exists>b'' o''. match_sell b' o' = Some (b'', o'') \<and> P b'' o'' \<and> \<not> match_sell_continues b'' o''"
      using "1.IH"[OF _ refl _ body refl P'] True
      by (auto simp: match_sell_continues_def)
    then show ?thesis using True body by (subst match_sell_unfold) simp
  qed
qed

lemma match_sell_body_cases:
  assumes "match_sell_body b o' r = Some (b', o'')" and "buy_heap b = r # rest"
  shows "o'' = o'\<lparr>quantity := quantity o' - min (quantity o') (quantity r)\<rparr> \<and>
         trade_log b' = trade_log b @
           [\<lparr>buy_order_id = order_id r, sell_order_id = order_id o',
             trade_price = price r, trade_quantity = min (quantity o') (quantity r)\<rparr>] \<and>
         sell_heap b' = sell_heap b \<and> instrument_id b' = instrument_id b \<and>
         on_market_update b' = on_market_update b \<and>
         market_updates b' = market_updates b @
           (if on_market_update b
            then [\<lparr>lu_instrument = instrument_id b, lu_price = price r,
                   lu_quantity = quantity r - min (quantity o') (quantity r), lu_side = True\<rparr>]
            else []) \<and>
         (if quantity r - min (quantity o') (quantity r) = 0
          then heappop Order_lt (r\<lparr>quantity := 0\<rparr> # rest) = Some (buy_heap b')
          else buy_heap b' = r\<lparr>quantity := quantity r - min (quantity o') (quantity r)\<rparr> # rest)"
  using assms
  by (auto simp: match_sell_body_def Let_def notify_update_def split: if_splits option.splits)

lemma match_sell_body_heap:
  assumes "match_sell_body b o' r = Some (b', o'')" and "buy_heap b = r # rest"
  shows "(quantity r \<le> quantity o' \<and> mset (buy_heap b') = mset rest \<and>
            heappop Order_lt (r\<lparr>quantity := 0\<rparr> # rest) = Some (buy_heap b')) \<or>
         (quantity o' < quantity r \<and>
            buy_heap b' = r\<lparr>quantity := quantity r - quantity o'\<rparr> # rest)"
proof (cases "quantity r \<le> quantity o'")
  case True
  then have "heappop Order_lt (r\<lparr>quantity := 0\<rparr> # rest) = Some (buy_heap b')"
    using match_sell_body_cases[OF assms] by (simp add: min_def split: if_splits)
  then show ?thesis using True heappop_Cons_mset[of Order_lt "r\<lparr>quantity := 0\<rparr>" rest "buy_heap b'"]
    by simp
next
  case False
  then show ?thesis using match_sell_body_cases[OF assms] by (simp add: min_def)
qed

lemma match_sell_body_image:
  assumes "match_sell_body b o' r = Some (b', o'')" and "buy_heap b = r # rest"
    and "\<And>x q. f (x\<lparr>quantity := q\<rparr>) = f x"
  shows "f ` set (buy_heap b') \<subseteq> f ` set (buy_heap b)"
  using match_sell_body_heap[OF assms(1,2)] assms(2,3)
  by (auto dest: mset_eq_setD)



lemma match_sell_body_order:
  assumes "match_sell_body b o' r = Some (b', o'')"
  shows "side o'' = side o' \<and> price o'' = price o' \<and> order_type o'' = order_type o' \<and>
         order_id o'' = order_id o' \<and> timestamp o'' = timestamp o'"
  using assms
  by (auto simp: match_sell_body_def Let_def split: if_splits option.splits)




lemma match_sell_maker:
  "\<exists>b' o'. match_sell b sell_order = Some (b', o') \<and> order_type o' = order_type sell_order \<and>
     (\<exists>ts. trade_log b' = trade_log b @ ts \<and>
        (\<forall>t\<in>set ts. \<exists>r\<in>set (buy_heap b). trade_price t = price r \<and>
            buy_order_id t = order_id r \<and> sell_order_id t = order_id sell_order))"
proof -
  let ?key = "\<lambda>r. (order_id r, price r)"
  let ?P = "\<lambda>b1 o1. order_id o1 = order_id sell_order \<and> order_type o1 = order_type sell_order \<and>
     ?key ` set (buy_heap b1) \<subseteq> ?key ` set (buy_heap b) \<and>
     (\<exists>ts. trade_log b1 = trade_log b @ ts \<and>
        (\<forall>t\<in>set ts. \<exists>r\<in>set (buy_heap b). trade_price t = price r \<and>
            buy_order_id t = order_id r \<and> sell_order_id t = order_id sell_order))"
  have "\<exists>b' o'. match_sell b sell_order = Some (b', o') \<and> ?P b' o' \<and> \<not> match_sell_continues b' o'"
  proof (rule match_sell_rule[where P = ?P])
    show "?P b sell_order" by simp
  next
    fix b1 o1 b2 o2
    assume P: "?P b1 o1" and c: "match_sell_continues b1 o1"
      and body: "match_sell_body b1 o1 (buy_heap b1 ! 0) = Some (b2, o2)"
    have ne: "buy_heap b1 \<noteq> []" using c by (simp add: match_sell_continues_def)
    then obtain r rest where h: "buy_heap b1 = r # rest" by (cases "buy_heap b1") auto
    then have body': "match_sell_body b1 o1 r = Some (b2, o2)" using body by simp
    from P obtain ts where ts: "trade_log b1 = trade_log b @ ts"
      "\<forall>t\<in>set ts. \<exists>r\<in>set (buy_heap b). trade_price t = price r \<and>
            buy_order_id t = order_id r \<and> sell_order_id t = order_id sell_order" by blast
    let ?t = "\<lparr>buy_order_id = order_id r, sell_order_id = order_id o1,
             trade_price = price r, trade_quantity = min (quantity o1) (quantity r)\<rparr>"
    have tl: "trade_log b2 = trade_log b @ (ts @ [?t])"
      using match_sell_body_cases[OF body' h] ts(1) by simp
    have "?key r \<in> ?key ` set (buy_heap b)" using P h by auto
    then obtain r0 where r0: "r0 \<in> set (buy_heap b)" "order_id r0 = order_id r" "price r0 = price r"
      by auto
    have new: "\<forall>t\<in>set (ts @ [?t]). \<exists>r\<in>set (buy_heap b). trade_price t = price r \<and>
            buy_order_id t = order_id r \<and> sell_order_id t = order_id sell_order"
    proof -
      have "\<exists>x\<in>set (buy_heap b). price r = price x \<and> order_id r = order_id x"
        using r0 by (intro bexI[of _ r0]) simp_all
      moreover have "order_id o1 = order_id sell_order" using P by simp
      ultimately show ?thesis using ts(2) by simp
    qed
    have sub: "?key ` set (buy_heap b2) \<subseteq> ?key ` set (buy_heap b1)"
      by (rule match_sell_body_image[OF body' h]) simp
    have sub': "?key ` set (buy_heap b2) \<subseteq> ?key ` set (buy_heap b)"
      using sub P by (meson subset_trans)
    have o2: "order_id o2 = order_id sell_order" "order_type o2 = order_type sell_order"
      using match_sell_body_order[OF body] P by simp_all
    show "?P b2 o2"
      using o2 sub' tl new by blast
  qed
  then show ?thesis by blast
qed



section \<open>Calls of \<open>add_order\<close> and the books they reach\<close>






lemma add_order_buy_logs:
  assumes "side ord" and "match_buy b ord = Some (b1, o1)" and "add_order b ord = Some b'"
  shows "trade_log b' = trade_log b1 \<and> market_updates b' = market_updates b1 \<and>
         sell_heap b' = sell_heap b1 \<and>
         (\<not> (0 < quantity o1 \<and> order_type o1 = ''limit'') \<longrightarrow> b' = b1)"
  using assms by (auto simp: add_order_def split: if_splits)

lemma add_order_sell_logs:
  assumes "\<not> side ord" and "match_sell b ord = Some (b1, o1)" and "add_order b ord = Some b'"
  shows "trade_log b' = trade_log b1 \<and> market_updates b' = market_updates b1 \<and>
         buy_heap b' = buy_heap b1 \<and>
         (\<not> (0 < quantity o1 \<and> order_type o1 = ''limit'') \<longrightarrow> b' = b1)"
  using assms by (auto simp: add_order_def split: if_splits)

lemma add_order_total: "\<exists>b'. add_order b ord = Some b'"
proof (cases "side ord")
  case True
  from match_buy_maker[of b ord] obtain b1 o1 where "match_buy b ord = Some (b1, o1)" by blast
  then show ?thesis using True by (simp add: add_order_def)
next
  case False
  from match_sell_maker[of b ord] obtain b1 o1 where "match_sell b ord = Some (b1, o1)" by blast
  then show ?thesis using False by (simp add: add_order_def)
qed






section \<open>The claims\<close>



text \<open>
  C2. The update sent after a trade carries the remaining quantity of the one resting order
  that was filled, not the aggregate of its price level. With two asks of 3 and 4 at 100.00,
  a buy of 3 sends (100.00, 0, SELL) although 4 still rest at that price, and a buy of 1
  sends (100.00, 2, SELL) although 6 rest there.
\<close>

theorem level_update_carries_order_quantity:
  "submit_all (OrderBook_init ''BTC_USD'' True)
     [Order 1 10000 3 False ''limit'' 1, Order 2 10000 4 False ''limit'' 2] = Some book_two_asks \<and>
   add_order book_two_asks (Order 3 10000 3 True ''limit'' 3) =
     Some \<lparr>instrument_id = ''BTC_USD'', buy_heap = [],
        sell_heap = [Order 2 10000 4 False ''limit'' 2],
        trade_log = [\<lparr>buy_order_id = 3, sell_order_id = 1, trade_price = 10000, trade_quantity = 3\<rparr>],
        on_market_update = True,
        market_updates = [\<lparr>lu_instrument = ''BTC_USD'', lu_price = 10000, lu_quantity = 0, lu_side = False\<rparr>]\<rparr> \<and>
   asks (dump_book \<lparr>instrument_id = ''BTC_USD'', buy_heap = [],
        sell_heap = [Order 2 10000 4 False ''limit'' 2],
        trade_log = [\<lparr>buy_order_id = 3, sell_order_id = 1, trade_price = 10000, trade_quantity = 3\<rparr>],
        on_market_update = True,
        market_updates = [\<lparr>lu_instrument = ''BTC_USD'', lu_price = 10000, lu_quantity = 0, lu_side = False\<rparr>]\<rparr>)
     = [(10000, 4)] \<and>
   add_order book_two_asks (Order 3 10000 1 True ''limit'' 3) =
     Some \<lparr>instrument_id = ''BTC_USD'', buy_heap = [],
        sell_heap = [Order 1 10000 2 False ''limit'' 1, Order 2 10000 4 False ''limit'' 2],
        trade_log = [\<lparr>buy_order_id = 3, sell_order_id = 1, trade_price = 10000, trade_quantity = 1\<rparr>],
        on_market_update = True,
        market_updates = [\<lparr>lu_instrument = ''BTC_USD'', lu_price = 10000, lu_quantity = 2, lu_side = False\<rparr>]\<rparr> \<and>
   asks (dump_book \<lparr>instrument_id = ''BTC_USD'', buy_heap = [],
        sell_heap = [Order 1 10000 2 False ''limit'' 1, Order 2 10000 4 False ''limit'' 2],
        trade_log = [\<lparr>buy_order_id = 3, sell_order_id = 1, trade_price = 10000, trade_quantity = 1\<rparr>],
        on_market_update = True,
        market_updates = [\<lparr>lu_instrument = ''BTC_USD'', lu_price = 10000, lu_quantity = 2, lu_side = False\<rparr>]\<rparr>)
     = [(10000, 6)]"
  by code_simp

text \<open>
  C3, as the code has it. \<open>add_order\<close> validates nothing and never fails: it returns for
  every book and every order, and an order whose quantity is \<open>\<le> 0\<close> leaves the book as it
  was, with no trade and no callback call. A limit order with a price \<open>\<le> 0\<close> is accepted
  and rested, and an order whose type is neither "limit" nor "market" is matched like a
  market order.
\<close>

theorem add_order_validates_nothing:
  "(\<exists>b'. add_order b ord = Some b') \<and> (quantity ord \<le> 0 \<longrightarrow> add_order b ord = Some b)"
proof
  show "\<exists>b'. add_order b ord = Some b'" by (rule add_order_total)
  show "quantity ord \<le> 0 \<longrightarrow> add_order b ord = Some b"
  proof
    assume q: "quantity ord \<le> 0"
    then have "match_buy b ord = Some (b, ord)" "match_sell b ord = Some (b, ord)"
      by (simp_all add: match_buy_unfold match_sell_unfold match_buy_continues_def
            match_sell_continues_def)
    then show "add_order b ord = Some b" using q by (simp add: add_order_def)
  qed
qed

theorem add_order_validates_nothing_witness:
  "quantity (Order 2 10000 0 True ''limit'' 2) \<le> 0 \<and>
   add_order book_one_ask (Order 2 10000 0 True ''limit'' 2) = Some book_one_ask"
  using add_order_validates_nothing[of book_one_ask "Order 2 10000 0 True ''limit'' 2"]
  by (simp add: Order_def)

theorem add_order_accepts_nonpositive_price:
  "price (Order 1 (- 100) 5 True ''limit'' 1) \<le> 0 \<and>
   order_type (Order 1 (- 100) 5 True ''limit'' 1) = ''limit'' \<and>
   add_order (OrderBook_init ''BTC_USD'' True) (Order 1 (- 100) 5 True ''limit'' 1) =
     Some \<lparr>instrument_id = ''BTC_USD'', buy_heap = [Order 1 (- 100) 5 True ''limit'' 1],
           sell_heap = [], trade_log = [], on_market_update = True, market_updates = []\<rparr> \<and>
   add_order (OrderBook_init ''BTC_USD'' True) (Order 1 10000 10 True ''limit'' 1) =
     Some book_one_bid \<and>
   add_order book_one_bid (Order 2 20000 10 False ''stop'' 2) =
     Some \<lparr>instrument_id = ''BTC_USD'', buy_heap = [], sell_heap = [],
           trade_log = [\<lparr>buy_order_id = 1, sell_order_id = 2, trade_price = 10000,
                          trade_quantity = 10\<rparr>],
           on_market_update = True,
           market_updates = [\<lparr>lu_instrument = ''BTC_USD'', lu_price = 10000, lu_quantity = 0,
                              lu_side = True\<rparr>]\<rparr>"
  by code_simp

text \<open>
  C4. A limit order that rests is pushed on its heap and no callback call is made for it:
  on a fresh book with a callback installed, and on a book that already holds a bid.
\<close>

theorem resting_limit_order_emits_no_update:
  "add_order (OrderBook_init ''BTC_USD'' True) (Order 1 10000 10 True ''limit'' 1) =
     Some \<lparr>instrument_id = ''BTC_USD'', buy_heap = [Order 1 10000 10 True ''limit'' 1],
           sell_heap = [], trade_log = [], on_market_update = True, market_updates = []\<rparr> \<and>
   add_order (OrderBook_init ''BTC_USD'' True) (Order 1 10000 10 True ''limit'' 1) =
     Some book_one_bid \<and>
   add_order book_one_bid (Order 2 9900 4 True ''limit'' 2) =
     Some \<lparr>instrument_id = ''BTC_USD'',
           buy_heap = [Order 1 10000 10 True ''limit'' 1, Order 2 9900 4 True ''limit'' 2],
           sell_heap = [], trade_log = [], on_market_update = True, market_updates = []\<rparr>"
  by code_simp









text \<open>
  C8. Every trade a call of \<open>add_order\<close> produces has the price of an order that was
  resting on the opposite side when the call began, and carries that order's id as the
  maker and the incoming order's id as the taker. The incoming order's own price is not
  used: a sell at 99.00 against a resting bid at 100.00 trades at 100.00.
\<close>

theorem trade_price_is_maker_price:
  assumes "add_order b ord = Some b'" and "t \<in> set (new_trades b b')"
  shows "\<exists>r\<in>set (if side ord then sell_heap b else buy_heap b).
           trade_price t = price r \<and>
           (if side ord then sell_order_id t = order_id r \<and> buy_order_id t = order_id ord
            else buy_order_id t = order_id r \<and> sell_order_id t = order_id ord)"
proof (cases "side ord")
  case True
  from match_buy_maker[of b ord] obtain b1 o1 ts where
    m: "match_buy b ord = Some (b1, o1)" and ts: "trade_log b1 = trade_log b @ ts"
    and mk: "\<forall>t\<in>set ts. \<exists>r\<in>set (sell_heap b). trade_price t = price r \<and>
            sell_order_id t = order_id r \<and> buy_order_id t = order_id ord" by blast
  have "new_trades b b' = ts"
    using add_order_buy_logs[OF True m assms(1)] ts by (simp add: new_trades_def)
  then show ?thesis using mk assms(2) True by simp
next
  case False
  from match_sell_maker[of b ord] obtain b1 o1 ts where
    m: "match_sell b ord = Some (b1, o1)" and ts: "trade_log b1 = trade_log b @ ts"
    and mk: "\<forall>t\<in>set ts. \<exists>r\<in>set (buy_heap b). trade_price t = price r \<and>
            buy_order_id t = order_id r \<and> sell_order_id t = order_id ord" by blast
  have "new_trades b b' = ts"
    using add_order_sell_logs[OF False m assms(1)] ts by (simp add: new_trades_def)
  then show ?thesis using mk assms(2) False by simp
qed

theorem trade_price_is_maker_price_witness:
  "add_order book_one_bid (Order 2 9900 4 False ''limit'' 2) =
     Some \<lparr>instrument_id = ''BTC_USD'', buy_heap = [Order 1 10000 6 True ''limit'' 1],
           sell_heap = [],
           trade_log = [\<lparr>buy_order_id = 1, sell_order_id = 2, trade_price = 10000,
                          trade_quantity = 4\<rparr>],
           on_market_update = True,
           market_updates = [\<lparr>lu_instrument = ''BTC_USD'', lu_price = 10000, lu_quantity = 6,
                              lu_side = True\<rparr>]\<rparr> \<and>
   price (Order 2 9900 4 False ''limit'' 2) = 9900 \<and>
   (\<exists>r\<in>set (buy_heap book_one_bid). 10000 = price r \<and> 1 = order_id r \<and>
       2 = order_id (Order 2 9900 4 False ''limit'' 2))"
proof -
  let ?t = "\<lparr>buy_order_id = 1, sell_order_id = 2, trade_price = 10000, trade_quantity = 4\<rparr>"
  let ?b = "\<lparr>instrument_id = ''BTC_USD'', buy_heap = [Order 1 10000 6 True ''limit'' 1],
           sell_heap = [], trade_log = [?t], on_market_update = True,
           market_updates = [\<lparr>lu_instrument = ''BTC_USD'', lu_price = 10000, lu_quantity = 6,
                              lu_side = True\<rparr>]\<rparr>"
  have e: "add_order book_one_bid (Order 2 9900 4 False ''limit'' 2) = Some ?b"
    by code_simp
  have t: "?t \<in> set (new_trades book_one_bid ?b)"
    by (simp add: new_trades_def book_one_bid_def)
  have s: "\<not> side (Order 2 9900 4 False ''limit'' 2)" "price (Order 2 9900 4 False ''limit'' 2) = 9900"
    by (simp_all add: Order_def)
  from trade_price_is_maker_price[OF e t] s e show ?thesis by simp
qed

text \<open>
  C9, as the code has it. \<open>apply_update\<close> never looks at the timestamp of the update or of
  the book: it applies every update. Afterwards \<open>last_update_timestamp\<close> is the update's
  timestamp and the level at the update's price on its side holds the update's quantity when
  that is positive and is absent otherwise. Only an update applied twice in a row changes
  nothing the second time. An update older than the snapshot is applied like any other, and
  so is a copy of an update applied earlier.
\<close>

theorem apply_update_unconditional:
  "last_update_timestamp (apply_update c u) = update_timestamp u \<and>
   (if update_side u then client_bids (apply_update c u) else client_asks (apply_update c u))
       (update_price u)
     = (if update_quantity u > 0 then Some (update_quantity u) else None) \<and>
   apply_update (apply_update c u) u = apply_update c u"
  by (auto simp: apply_update_def Let_def)

theorem apply_update_unconditional_witness:
  "last_update_timestamp
     (apply_update (apply_snapshot ClientOrderBook_init snapshot_one_bid)
        \<lparr>update_price = 10000, update_quantity = 2, update_side = True, update_timestamp = 5\<rparr>) = 5 \<and>
   client_bids
     (apply_update (apply_snapshot ClientOrderBook_init snapshot_one_bid)
        \<lparr>update_price = 10000, update_quantity = 2, update_side = True, update_timestamp = 5\<rparr>)
     10000 = Some 2"
  using apply_update_unconditional[of "apply_snapshot ClientOrderBook_init snapshot_one_bid"
      "\<lparr>update_price = 10000, update_quantity = 2, update_side = True, update_timestamp = 5\<rparr>"]
  by simp

theorem apply_update_applies_stale_update:
  "snapshot_timestamp snapshot_one_bid = 10 \<and>
   client_bids (apply_snapshot ClientOrderBook_init snapshot_one_bid) 10000 = Some 6 \<and>
   last_update_timestamp (apply_snapshot ClientOrderBook_init snapshot_one_bid) = 10 \<and>
   client_bids
     (apply_update (apply_snapshot ClientOrderBook_init snapshot_one_bid)
        \<lparr>update_price = 10000, update_quantity = 0, update_side = True, update_timestamp = 5\<rparr>)
     10000 = None \<and>
   last_update_timestamp
     (apply_update (apply_snapshot ClientOrderBook_init snapshot_one_bid)
        \<lparr>update_price = 10000, update_quantity = 0, update_side = True, update_timestamp = 5\<rparr>) = 5 \<and>
   client_bids
     (apply_update
        (apply_update
           (apply_update (apply_snapshot ClientOrderBook_init snapshot_one_bid)
              \<lparr>update_price = 10000, update_quantity = 4, update_side = True, update_timestamp = 11\<rparr>)
           \<lparr>update_price = 10000, update_quantity = 0, update_side = True, update_timestamp = 12\<rparr>)
        \<lparr>update_price = 10000, update_quantity = 4, update_side = True, update_timestamp = 11\<rparr>)
     10000 = Some 4"
  by (simp add: apply_update_def apply_snapshot_def snapshot_one_bid_def ClientOrderBook_init_def
        snapshot_bid_def Let_def)



end
